theory Spec2Isabelle
  imports Main "HOL-Library.AList"
begin

section \<open>Data model of the token service\<close>

text \<open>
  The development follows \<^verbatim>\<open>TokenService\<close> (the dual-token authentication service of the
  repository). The interfaces \<^verbatim>\<open>TokenPayload\<close> and \<^verbatim>\<open>TokenPair\<close> become records. Instants
  (\<^verbatim>\<open>Date\<close> values and ISO timestamps) are integers: milliseconds since the epoch, as
  \<^verbatim>\<open>Date.now()\<close> returns them; \<^verbatim>\<open>exp\<close> and \<^verbatim>\<open>iat\<close> are seconds since the epoch.
\<close>

datatype TokenType = Access | Refresh

record TokenPayload =
  userId :: string
  email :: string
  sessionId :: string
  tokenType :: TokenType
  exp :: "int option"
  iat :: "int option"
  iss :: "string option"
  aud :: "string option"

record TokenPair =
  accessToken :: string
  refreshToken :: string
  accessTokenExpiresAt :: int
  refreshTokenExpiresAt :: int

text \<open>
  The object stored under \<^verbatim>\<open>token:<sessionId>\<close>:
  \<^verbatim>\<open>{userId, email, createdAt, lastUsedAt}\<close>. Its first two fields carry the prefix
  \<open>session_\<close> because a record field is a constant of its own.
\<close>

record SessionData =
  session_userId :: string
  session_email :: string
  createdAt :: int
  lastUsedAt :: int

text \<open>What a \<^verbatim>\<open>throw\<close> carries.\<close>

datatype exn = TokenExpiredError | JsonWebTokenError | SyntaxError | RedisError | Error

section \<open>The libraries the service calls\<close>

text \<open>
  \<^verbatim>\<open>jsonwebtoken\<close> and \<^verbatim>\<open>JSON\<close> are libraries outside the repository (the repository's own
  tests replace \<^verbatim>\<open>jsonwebtoken\<close> by mocks), so the service is modelled over an arbitrary
  implementation of them. \<^verbatim>\<open>jwt.sign\<close> and \<^verbatim>\<open>jwt.verify\<close> read the clock, which is their
  last argument here; \<^verbatim>\<open>expiresIn\<close> is in seconds (\<^verbatim>\<open>'15m'\<close> is 900, \<^verbatim>\<open>'7d'\<close> is 604800).
\<close>

record JwtOptions =
  expiresIn :: "int option"
  issuer :: string
  audience :: string

record env =
  JWT_SECRET :: string
  jwt_sign :: "TokenPayload \<Rightarrow> string \<Rightarrow> JwtOptions \<Rightarrow> int \<Rightarrow> exn + string"
  jwt_verify :: "string \<Rightarrow> string \<Rightarrow> JwtOptions \<Rightarrow> int \<Rightarrow> exn + TokenPayload"
  jwt_decode :: "string \<Rightarrow> TokenPayload option"
  JSON_stringify :: "SessionData \<Rightarrow> string"
  JSON_parse :: "string \<Rightarrow> exn + SessionData"

definition sign_options :: "int \<Rightarrow> JwtOptions" where
  "sign_options ttl =
     \<lparr>expiresIn = Some ttl, issuer = ''honojs-template'', audience = ''honojs-template-client''\<rparr>"

definition verify_options :: JwtOptions where
  "verify_options =
     \<lparr>expiresIn = None, issuer = ''honojs-template'', audience = ''honojs-template-client''\<rparr>"

definition ACCESS_TOKEN_EXPIRY :: int where
  "ACCESS_TOKEN_EXPIRY = 15 * 60"

definition REFRESH_TOKEN_EXPIRY :: int where
  "REFRESH_TOKEN_EXPIRY = 7 * 24 * 60 * 60"

definition REDIS_TOKEN_PREFIX :: string where
  "REDIS_TOKEN_PREFIX = ''token:''"

definition REDIS_BLACKLIST_PREFIX :: string where
  "REDIS_BLACKLIST_PREFIX = ''blacklist:''"

definition REDIS_REFRESH_PREFIX :: string where
  "REDIS_REFRESH_PREFIX = ''refresh:''"

section \<open>The key-value store and the clock\<close>

text \<open>
  A row is a value with the instant (in milliseconds, the unit of the store's clock) at
  which the store drops it, \<open>None\<close> for a row without expiry; a row is there as long as the
  clock has not passed that instant. The rows are an association list, so that \<^verbatim>\<open>KEYS\<close>
  can enumerate them. A row whose instant has passed stays in the list and is invisible to
  every command.

  The world of a call is the store, the clock (milliseconds since the epoch, what
  \<^verbatim>\<open>Date.now()\<close> returns), the schedule of the time that passes while the next commands
  are awaited (the head is the number of milliseconds between now and the instant at which
  the store executes the next command; an empty schedule means that no time passes), the
  schedule of store failures (the head tells whether the next command is rejected; an empty
  schedule means no failure) and the trace of the store commands and signature
  verifications issued so far. Time passes only while a command is awaited.
\<close>

type_synonym row = "string \<times> int option"
type_synonym store = "(string \<times> row) list"

datatype event =
  EXISTS string | GET string | SETEX string int string | DEL string | KEYS string | TTL string
  | VERIFY string

record world =
  kv :: store
  faults :: "bool list"
  delays :: "nat list"
  clock :: int
  trace :: "event list"

type_synonym 'a io = "world \<Rightarrow> (exn + 'a) \<times> world"

definition return_io :: "'a \<Rightarrow> 'a io" where
  "return_io x w = (Inr x, w)"

definition throw :: "exn \<Rightarrow> 'a io" where
  "throw e w = (Inl e, w)"

definition lift :: "exn + 'a \<Rightarrow> 'a io" where
  "lift r w = (r, w)"

definition bind_io :: "'a io \<Rightarrow> ('a \<Rightarrow> 'b io) \<Rightarrow> 'b io" where
  "bind_io m f w = (case m w of (Inl e, w') \<Rightarrow> (Inl e, w') | (Inr x, w') \<Rightarrow> f x w')"

definition try_catch :: "'a io \<Rightarrow> (exn \<Rightarrow> 'a io) \<Rightarrow> 'a io" where
  "try_catch m h w = (case m w of (Inl e, w') \<Rightarrow> h e w' | (Inr x, w') \<Rightarrow> (Inr x, w'))"

text \<open>\<^verbatim>\<open>Date.now()\<close>, and \<^verbatim>\<open>Math.floor(Date.now() / 1000)\<close>.\<close>

definition date_now :: "int io" where
  "date_now w = (Inr (clock w), w)"

definition unix_time :: "int \<Rightarrow> int" where
  "unix_time now = now div 1000"

text \<open>The instant at which the \<open>n\<close>-th of the next commands is executed.\<close>

definition instant :: "nat \<Rightarrow> world \<Rightarrow> int" where
  "instant n w = clock w + int (sum_list (take n (delays w)))"

definition live :: "int \<Rightarrow> row \<Rightarrow> bool" where
  "live t r = (case snd r of None \<Rightarrow> True | Some e \<Rightarrow> t \<le> e)"

definition store_get :: "int \<Rightarrow> store \<Rightarrow> string \<Rightarrow> string option" where
  "store_get t s k =
     (case map_of s k of None \<Rightarrow> None | Some r \<Rightarrow> if live t r then Some (fst r) else None)"

definition faulty :: "world \<Rightarrow> bool" where
  "faulty w = (case faults w of [] \<Rightarrow> False | b # _ \<Rightarrow> b)"

text \<open>
  Awaiting a command: the command is recorded, the time of the schedule passes, and the
  store either rejects the command or executes it at the instant its clock then shows.
\<close>

definition advance :: "event \<Rightarrow> world \<Rightarrow> world" where
  "advance ev w =
     w\<lparr>trace := trace w @ [ev], faults := tl (faults w),
       clock := instant 1 w, delays := tl (delays w)\<rparr>"

definition command :: "event \<Rightarrow> (int \<Rightarrow> store \<Rightarrow> (exn + 'a) \<times> store) \<Rightarrow> 'a io" where
  "command ev f w =
     (if faulty w then (Inl RedisError, advance ev w)
      else (case f (instant 1 w) (kv w) of (r, s) \<Rightarrow> (r, (advance ev w)\<lparr>kv := s\<rparr>)))"

definition redis_exists :: "string \<Rightarrow> int io" where
  "redis_exists k =
     command (EXISTS k) (\<lambda>t s. (Inr (if store_get t s k = None then 0 else 1), s))"

definition redis_get :: "string \<Rightarrow> string option io" where
  "redis_get k = command (GET k) (\<lambda>t s. (Inr (store_get t s k), s))"

text \<open>
  \<^verbatim>\<open>SETEX\<close> counts its seconds from the instant at which the store executes it, and refuses
  a time to live that is not positive.
\<close>

definition redis_setex :: "string \<Rightarrow> int \<Rightarrow> string \<Rightarrow> unit io" where
  "redis_setex k ttl v =
     command (SETEX k ttl v)
       (\<lambda>t s. if ttl \<le> 0 then (Inl RedisError, s)
              else (Inr (), AList.update k (v, Some (t + ttl * 1000)) s))"

definition redis_del :: "string \<Rightarrow> int io" where
  "redis_del k =
     command (DEL k)
       (\<lambda>t s. (Inr (if store_get t s k = None then 0 else 1), AList.delete k s))"

definition redis_keys :: "string \<Rightarrow> string list io" where
  "redis_keys p =
     command (KEYS p)
       (\<lambda>t s. (Inr (filter (\<lambda>k. take (length p) k = p \<and> store_get t s k \<noteq> None) (map fst s)),
               s))"

text \<open>
  \<^verbatim>\<open>TTL\<close> answers \<open>-2\<close> for a key that is not there, \<open>-1\<close> for a row without expiry, and
  otherwise the remaining milliseconds rounded to the nearest second: \<open>0\<close> when less than
  half a second remains.
\<close>

definition reported_ttl :: "int option \<Rightarrow> int \<Rightarrow> int" where
  "reported_ttl x t =
     (case x of None \<Rightarrow> - 1 | Some e \<Rightarrow> if t \<le> e then (e - t + 500) div 1000 else - 2)"

definition redis_ttl :: "string \<Rightarrow> int io" where
  "redis_ttl k =
     command (TTL k)
       (\<lambda>t s. (Inr (case map_of s k of None \<Rightarrow> - 2 | Some r \<Rightarrow> reported_ttl (snd r) t), s))"

text \<open>\<^verbatim>\<open>String.prototype.replace\<close> with a string pattern: the first occurrence only.\<close>

fun replace_first :: "string \<Rightarrow> string \<Rightarrow> string \<Rightarrow> string" where
  "replace_first pat rep [] = (if pat = [] then rep else [])"
| "replace_first pat rep (c # cs) =
     (if take (length pat) (c # cs) = pat then rep @ drop (length pat) (c # cs)
      else c # replace_first pat rep cs)"

section \<open>TokenService\<close>

text \<open>
  The calls to the logger are left out: they return nothing and touch neither the store nor
  the result. \<^verbatim>\<open>jwt.sign\<close> and \<^verbatim>\<open>jwt.verify\<close> read the clock at the point where they are
  called.
\<close>

definition updateSessionLastUsed :: "env \<Rightarrow> string \<Rightarrow> unit io" where
  "updateSessionLastUsed E sid =
     try_catch
       (let sessionKey = REDIS_TOKEN_PREFIX @ sid in
        bind_io (redis_get sessionKey) (\<lambda>sessionData.
          case sessionData of
            None \<Rightarrow> return_io ()
          | Some d \<Rightarrow>
              if d = [] then return_io ()
              else bind_io (lift (JSON_parse E d)) (\<lambda>session.
                   bind_io date_now (\<lambda>now.
                   bind_io (redis_ttl sessionKey) (\<lambda>ttl.
                     redis_setex sessionKey
                       (if ttl > 0 then ttl else 7 * 24 * 60 * 60)
                       (JSON_stringify E (session\<lparr>lastUsedAt := now\<rparr>)))))))
       (\<lambda>error. return_io ())"

definition jwt_verify_io :: "env \<Rightarrow> string \<Rightarrow> TokenPayload io" where
  "jwt_verify_io E token w =
     (jwt_verify E token (JWT_SECRET E) verify_options (clock w),
      w\<lparr>trace := trace w @ [VERIFY token]\<rparr>)"

definition jwt_sign_io :: "env \<Rightarrow> TokenPayload \<Rightarrow> JwtOptions \<Rightarrow> string io" where
  "jwt_sign_io E payload opts w = (jwt_sign E payload (JWT_SECRET E) opts (clock w), w)"

definition verifyToken :: "env \<Rightarrow> string \<Rightarrow> TokenPayload option io" where
  "verifyToken E token =
     try_catch
       (bind_io (redis_exists (REDIS_BLACKLIST_PREFIX @ token)) (\<lambda>isBlacklisted.
          if isBlacklisted \<noteq> 0 then return_io None
          else bind_io (jwt_verify_io E token) (\<lambda>payload.
               bind_io (if sessionId payload \<noteq> [] then updateSessionLastUsed E (sessionId payload)
                        else return_io ()) (\<lambda>_.
                 return_io (Some payload)))))
       (\<lambda>error. return_io None)"

text \<open>The result of \<^verbatim>\<open>refreshAccessToken\<close> is the pair \<^verbatim>\<open>(accessToken, accessTokenExpiresAt)\<close>.\<close>

definition refreshAccessToken :: "env \<Rightarrow> string \<Rightarrow> (string \<times> int) option io" where
  "refreshAccessToken E refreshToken' =
     try_catch
       (bind_io (verifyToken E refreshToken') (\<lambda>payload'.
          case payload' of
            None \<Rightarrow> return_io None
          | Some payload \<Rightarrow>
              if tokenType payload \<noteq> Refresh then return_io None
              else bind_io (redis_get (REDIS_REFRESH_PREFIX @ sessionId payload))
                (\<lambda>storedRefreshToken.
                   if storedRefreshToken = None \<or> storedRefreshToken = Some []
                      \<or> storedRefreshToken \<noteq> Some refreshToken' then return_io None
                   else bind_io (jwt_sign_io E
                           \<lparr>userId = userId payload, email = email payload,
                            sessionId = sessionId payload, tokenType = Access,
                            exp = None, iat = None, iss = None, aud = None\<rparr>
                           (sign_options ACCESS_TOKEN_EXPIRY)) (\<lambda>accessToken'.
                        bind_io date_now (\<lambda>now.
                        bind_io (updateSessionLastUsed E (sessionId payload)) (\<lambda>_.
                          return_io (Some (accessToken', now + 15 * 60 * 1000))))))))
       (\<lambda>error. return_io None)"

text \<open>\<open>sid\<close> is the value \<^verbatim>\<open>uuidv4()\<close> returns.\<close>

definition generateTokenPair :: "env \<Rightarrow> string \<Rightarrow> string \<Rightarrow> string \<Rightarrow> TokenPair io" where
  "generateTokenPair E uid mail sid =
     bind_io (jwt_sign_io E
         \<lparr>userId = uid, email = mail, sessionId = sid, tokenType = Access,
          exp = None, iat = None, iss = None, aud = None\<rparr>
         (sign_options ACCESS_TOKEN_EXPIRY)) (\<lambda>accessToken'.
     bind_io (jwt_sign_io E
         \<lparr>userId = uid, email = mail, sessionId = sid, tokenType = Refresh,
          exp = None, iat = None, iss = None, aud = None\<rparr>
         (sign_options REFRESH_TOKEN_EXPIRY)) (\<lambda>refreshToken'.
     bind_io date_now (\<lambda>issued.
     bind_io (redis_setex (REDIS_REFRESH_PREFIX @ sid) (7 * 24 * 60 * 60) refreshToken') (\<lambda>_.
     bind_io date_now (\<lambda>now.
     bind_io (redis_setex (REDIS_TOKEN_PREFIX @ sid) (7 * 24 * 60 * 60)
                (JSON_stringify E
                   \<lparr>session_userId = uid, session_email = mail,
                    createdAt = now, lastUsedAt = now\<rparr>)) (\<lambda>_.
       return_io
         \<lparr>accessToken = accessToken', refreshToken = refreshToken',
          accessTokenExpiresAt = issued + 15 * 60 * 1000,
          refreshTokenExpiresAt = issued + 7 * 24 * 60 * 60 * 1000\<rparr>))))))"

definition revokeToken :: "env \<Rightarrow> string \<Rightarrow> unit io" where
  "revokeToken E token =
     try_catch
       (case jwt_decode E token of
          None \<Rightarrow> return_io ()
        | Some payload \<Rightarrow>
            (case exp payload of
               None \<Rightarrow> return_io ()
             | Some e \<Rightarrow>
                 if e = 0 then return_io ()
                 else bind_io date_now (\<lambda>now.
                        let ttl = e - unix_time now in
                        if ttl > 0
                        then redis_setex (REDIS_BLACKLIST_PREFIX @ token) ttl ''1''
                        else return_io ())))
       (\<lambda>error. throw error)"

definition revokeSession :: "string \<Rightarrow> unit io" where
  "revokeSession sid =
     try_catch
       (bind_io (redis_del (REDIS_REFRESH_PREFIX @ sid)) (\<lambda>_.
        bind_io (redis_del (REDIS_TOKEN_PREFIX @ sid)) (\<lambda>_.
          return_io ())))
       (\<lambda>error. throw error)"

fun revokeAll_loop :: "env \<Rightarrow> string \<Rightarrow> string list \<Rightarrow> unit io" where
  "revokeAll_loop E uid [] = return_io ()"
| "revokeAll_loop E uid (key # sessionKeys) =
     bind_io (redis_get key) (\<lambda>sessionData.
     bind_io (case sessionData of
                None \<Rightarrow> return_io ()
              | Some d \<Rightarrow>
                  if d = [] then return_io ()
                  else bind_io (lift (JSON_parse E d)) (\<lambda>session.
                         if session_userId session = uid
                         then revokeSession (replace_first REDIS_TOKEN_PREFIX [] key)
                         else return_io ())) (\<lambda>_.
       revokeAll_loop E uid sessionKeys))"

definition revokeAllUserTokens :: "env \<Rightarrow> string \<Rightarrow> unit io" where
  "revokeAllUserTokens E uid =
     try_catch
       (bind_io (redis_keys REDIS_TOKEN_PREFIX) (\<lambda>sessionKeys.
          revokeAll_loop E uid sessionKeys))
       (\<lambda>error. throw error)"

text \<open>
  An element of the result of \<^verbatim>\<open>getUserSessions\<close> is the triple
  \<^verbatim>\<open>(sessionId, createdAt, lastUsedAt)\<close>.
\<close>

fun sessions_loop ::
  "env \<Rightarrow> string \<Rightarrow> string list \<Rightarrow> (string \<times> int \<times> int) list
     \<Rightarrow> (string \<times> int \<times> int) list io" where
  "sessions_loop E uid [] sessions = return_io sessions"
| "sessions_loop E uid (key # sessionKeys) sessions =
     bind_io (redis_get key) (\<lambda>sessionData.
       case sessionData of
         None \<Rightarrow> sessions_loop E uid sessionKeys sessions
       | Some d \<Rightarrow>
           if d = [] then sessions_loop E uid sessionKeys sessions
           else bind_io (lift (JSON_parse E d)) (\<lambda>session.
                  if session_userId session = uid
                  then sessions_loop E uid sessionKeys
                         (sessions @ [(replace_first REDIS_TOKEN_PREFIX [] key,
                                       createdAt session, lastUsedAt session)])
                  else sessions_loop E uid sessionKeys sessions))"

definition getUserSessions :: "env \<Rightarrow> string \<Rightarrow> (string \<times> int \<times> int) list io" where
  "getUserSessions E uid =
     try_catch
       (bind_io (redis_keys REDIS_TOKEN_PREFIX) (\<lambda>sessionKeys.
          sessions_loop E uid sessionKeys []))
       (\<lambda>error. return_io [])"

section \<open>Notions used by the statements\<close>

text \<open>
  A token is blacklisted in a world when the next command finds a row
  \<^verbatim>\<open>blacklist:<token>\<close>.
\<close>

definition blacklisted :: "world \<Rightarrow> string \<Rightarrow> bool" where
  "blacklisted w token =
     (store_get (instant 1 w) (kv w) (REDIS_BLACKLIST_PREFIX @ token) \<noteq> None)"

text \<open>The instant after which no command of the schedule is still to come.\<close>

definition horizon :: "world \<Rightarrow> int" where
  "horizon w = clock w + int (sum_list (delays w))"

text \<open>
  The time to live the touch writes for a row with expiry \<open>x\<close> when \<^verbatim>\<open>TTL\<close> is executed at
  \<open>t\<close>: \<^verbatim>\<open>ttl > 0 ? ttl : 7 * 24 * 60 * 60\<close>.
\<close>

definition touch_ttl :: "int option \<Rightarrow> int \<Rightarrow> int" where
  "touch_ttl x t = (if reported_ttl x t > 0 then reported_ttl x t else 7 * 24 * 60 * 60)"

text \<open>The claims \<^verbatim>\<open>refreshAccessToken\<close> signs for the new access token.\<close>

definition access_claims :: "TokenPayload \<Rightarrow> TokenPayload" where
  "access_claims payload =
     \<lparr>userId = userId payload, email = email payload, sessionId = sessionId payload,
      tokenType = Access, exp = None, iat = None, iss = None, aud = None\<rparr>"

text \<open>
  What \<^verbatim>\<open>jwt.sign\<close> embeds in the claims it signs: \<^verbatim>\<open>iat\<close>, \<^verbatim>\<open>exp = iat + expiresIn\<close>,
  \<^verbatim>\<open>iss\<close> and \<^verbatim>\<open>aud\<close>.
\<close>

definition stamped :: "TokenPayload \<Rightarrow> JwtOptions \<Rightarrow> int \<Rightarrow> TokenPayload" where
  "stamped p opts now =
     p\<lparr>exp := map_option (\<lambda>ttl. unix_time now + ttl) (expiresIn opts),
       iat := Some (unix_time now), iss := Some (issuer opts), aud := Some (audience opts)\<rparr>"

text \<open>
  The contract of the token library that the round-trip properties rest on: a token signed
  with the service's secret verifies, under the same issuer and audience and before its
  \<^verbatim>\<open>exp\<close>, to the claims that were signed.
\<close>

definition jwt_roundtrip :: "env \<Rightarrow> bool" where
  "jwt_roundtrip E =
     (\<forall>p ttl now token now'.
        jwt_sign E p (JWT_SECRET E) (sign_options ttl) now = Inr token \<and>
        unix_time now' < unix_time now + ttl \<longrightarrow>
        jwt_verify E token (JWT_SECRET E) verify_options now' = Inr (stamped p (sign_options ttl) now))"

section \<open>A concrete environment\<close>

text \<open>
  A small implementation of the libraries, on which the service can be run: it signs the
  access and the refresh claims of one login (user \<^verbatim>\<open>u1\<close>, session \<^verbatim>\<open>S1\<close>, at second 5) as
  \<^verbatim>\<open>tokA\<close> and \<^verbatim>\<open>tokR\<close>, and serialises the session row of that login.
\<close>

definition demo_payload :: "TokenType \<Rightarrow> TokenPayload" where
  "demo_payload ty =
     \<lparr>userId = ''u1'', email = ''a@x.com'', sessionId = ''S1'', tokenType = ty,
      exp = None, iat = None, iss = None, aud = None\<rparr>"

definition demo_session :: "int \<Rightarrow> SessionData" where
  "demo_session used =
     \<lparr>session_userId = ''u1'', session_email = ''a@x.com'', createdAt = 5000, lastUsedAt = used\<rparr>"

definition demo_sign :: "TokenPayload \<Rightarrow> string \<Rightarrow> JwtOptions \<Rightarrow> int \<Rightarrow> exn + string" where
  "demo_sign p secret opts now =
     (if secret = ''s3cret'' \<and> unix_time now = 5 \<and> p = demo_payload Access
         \<and> opts = sign_options ACCESS_TOKEN_EXPIRY then Inr ''tokA''
      else if secret = ''s3cret'' \<and> unix_time now = 5 \<and> p = demo_payload Refresh
         \<and> opts = sign_options REFRESH_TOKEN_EXPIRY then Inr ''tokR''
      else Inl Error)"

definition demo_verify :: "string \<Rightarrow> string \<Rightarrow> JwtOptions \<Rightarrow> int \<Rightarrow> exn + TokenPayload" where
  "demo_verify token secret opts now =
     (if secret \<noteq> ''s3cret'' \<or> opts \<noteq> verify_options then Inl JsonWebTokenError
      else if token = ''tokA'' then
        (if 5 + ACCESS_TOKEN_EXPIRY \<le> unix_time now then Inl TokenExpiredError
         else Inr (stamped (demo_payload Access) (sign_options ACCESS_TOKEN_EXPIRY) 5000))
      else if token = ''tokR'' then
        (if 5 + REFRESH_TOKEN_EXPIRY \<le> unix_time now then Inl TokenExpiredError
         else Inr (stamped (demo_payload Refresh) (sign_options REFRESH_TOKEN_EXPIRY) 5000))
      else Inl JsonWebTokenError)"

definition demo_decode :: "string \<Rightarrow> TokenPayload option" where
  "demo_decode token =
     (if token = ''tokA''
      then Some (stamped (demo_payload Access) (sign_options ACCESS_TOKEN_EXPIRY) 5000)
      else if token = ''tokR''
      then Some (stamped (demo_payload Refresh) (sign_options REFRESH_TOKEN_EXPIRY) 5000)
      else if token = ''tokN'' then Some (demo_payload Access)
      else None)"

definition demo_stringify :: "SessionData \<Rightarrow> string" where
  "demo_stringify m =
     (if m = demo_session 5000 then ''j5''
      else if m = demo_session 5500 then ''j55''
      else if m = demo_session 605000 then ''j605''
      else ''j'')"

definition demo_parse :: "string \<Rightarrow> exn + SessionData" where
  "demo_parse s =
     (if s = ''j5'' then Inr (demo_session 5000)
      else if s = ''j55'' then Inr (demo_session 5500)
      else if s = ''j605'' then Inr (demo_session 605000)
      else if s = ''k5'' then Inr ((demo_session 5000)\<lparr>session_userId := ''u2''\<rparr>)
      else Inl SyntaxError)"

definition demo_env :: env where
  "demo_env =
     \<lparr>JWT_SECRET = ''s3cret'', jwt_sign = demo_sign, jwt_verify = demo_verify,
      jwt_decode = demo_decode, JSON_stringify = demo_stringify, JSON_parse = demo_parse\<rparr>"

text \<open>A world in which no time passes, and one with a schedule of delays.\<close>

definition demo_world :: "int \<Rightarrow> store \<Rightarrow> bool list \<Rightarrow> world" where
  "demo_world now s fs = \<lparr>kv = s, faults = fs, delays = [], clock = now, trace = []\<rparr>"

definition slow_world :: "int \<Rightarrow> nat list \<Rightarrow> store \<Rightarrow> world" where
  "slow_world now ds s = \<lparr>kv = s, faults = [], delays = ds, clock = now, trace = []\<rparr>"

text \<open>The store right after the login of the concrete environment.\<close>

definition demo_store :: store where
  "demo_store =
     [(''refresh:S1'', (''tokR'', Some 604805000)), (''token:S1'', (''j5'', Some 604805000))]"








section \<open>Unfolding the combinators\<close>

lemma bind_io_unfold:
  "bind_io m f w =
     (case fst (m w) of Inl e \<Rightarrow> (Inl e, snd (m w)) | Inr x \<Rightarrow> f x (snd (m w)))"
  by (simp add: bind_io_def split: prod.splits sum.splits)

lemma try_catch_unfold:
  "try_catch m h w =
     (case fst (m w) of Inl e \<Rightarrow> h e (snd (m w)) | Inr x \<Rightarrow> (Inr x, snd (m w)))"
  by (simp add: try_catch_def split: prod.splits sum.splits)

lemma advance_fields:
  "kv (advance ev w) = kv w"
  "faults (advance ev w) = tl (faults w)"
  "delays (advance ev w) = tl (delays w)"
  "clock (advance ev w) = instant 1 w"
  "trace (advance ev w) = trace w @ [ev]"
  by (simp_all add: advance_def)

lemma advance_kv_same: "(advance ev w)\<lparr>kv := kv w\<rparr> = advance ev w"
  by (simp add: advance_def)

lemma instant_zero: "instant 0 w = clock w"
  by (simp add: instant_def)

lemma instant_advance: "instant n (advance ev w) = instant (Suc n) w"
  by (cases "delays w") (simp_all add: instant_def advance_def)

lemma instant_updates:
  "instant n (w\<lparr>kv := s\<rparr>) = instant n w"
  "instant n (w\<lparr>trace := tr\<rparr>) = instant n w"
  by (simp_all add: instant_def)

lemma instant_mono: "n \<le> m \<Longrightarrow> instant n w \<le> instant m w"
proof -
  assume "n \<le> m"
  then have "take m (delays w) = take n (delays w) @ take (m - n) (drop n (delays w))"
    by (metis le_add_diff_inverse take_add)
  then show ?thesis
    by (simp add: instant_def)
qed




lemma horizon_updates:
  "horizon (w\<lparr>kv := s\<rparr>) = horizon w"
  "horizon (w\<lparr>trace := tr\<rparr>) = horizon w"
  by (simp_all add: horizon_def)


lemma faulty_updates:
  "faulty (w\<lparr>kv := s\<rparr>) = faulty w"
  "faulty (w\<lparr>trace := tr\<rparr>) = faulty w"
  by (simp_all add: faulty_def)

lemmas io_defs =
  return_io_def throw_def lift_def date_now_def bind_io_unfold try_catch_unfold command_def
  Let_def advance_fields advance_kv_same instant_advance instant_updates faulty_updates

lemmas redis_defs =
  redis_exists_def redis_get_def redis_setex_def redis_del_def redis_keys_def redis_ttl_def

lemmas demo_defs =
  demo_env_def demo_world_def slow_world_def demo_sign_def demo_verify_def demo_decode_def
  demo_stringify_def demo_parse_def demo_payload_def demo_session_def stamped_def
  sign_options_def verify_options_def ACCESS_TOKEN_EXPIRY_def REFRESH_TOKEN_EXPIRY_def
  REDIS_TOKEN_PREFIX_def REDIS_BLACKLIST_PREFIX_def REDIS_REFRESH_PREFIX_def unix_time_def
  store_get_def live_def faulty_def instant_def reported_ttl_def touch_ttl_def

text \<open>For running the service on concrete worlds.\<close>

lemmas run_defs =
  verifyToken_def updateSessionLastUsed_def jwt_verify_io_def jwt_sign_io_def
  refreshAccessToken_def generateTokenPair_def revokeToken_def revokeSession_def
  revokeAllUserTokens_def getUserSessions_def return_io_def throw_def lift_def date_now_def
  bind_io_def try_catch_def command_def advance_def Let_def redis_defs demo_defs
  demo_store_def

section \<open>The touch helper\<close>

lemma updateSessionLastUsed_returns: "fst (updateSessionLastUsed E sid w) = Inr ()"
  by (simp add: updateSessionLastUsed_def io_defs redis_defs split: sum.splits option.splits)

lemma updateSessionLastUsed_trace:
  "\<exists>rest. trace (snd (updateSessionLastUsed E sid w)) =
          trace w @ GET (REDIS_TOKEN_PREFIX @ sid) # rest"
  by (simp add: updateSessionLastUsed_def io_defs redis_defs split: sum.splits option.splits)

lemma updateSessionLastUsed_frame:
  "k \<noteq> REDIS_TOKEN_PREFIX @ sid \<Longrightarrow>
   map_of (kv (snd (updateSessionLastUsed E sid w))) k = map_of (kv w) k"
  by (simp add: updateSessionLastUsed_def io_defs redis_defs update_conv'
      split: sum.splits option.splits)

section \<open>verifyToken\<close>

lemma verifyToken_result:
  "fst (verifyToken E token w) =
     Inr (if faulty w \<or> blacklisted w token then None
          else (case jwt_verify E token (JWT_SECRET E) verify_options (instant 1 w) of
                  Inl e \<Rightarrow> None | Inr p \<Rightarrow> Some p))"
  by (simp add: verifyToken_def io_defs redis_exists_def jwt_verify_io_def blacklisted_def
      updateSessionLastUsed_returns split: sum.splits)

lemma verifyToken_world:
  "snd (verifyToken E token w) =
     (let w1 = advance (EXISTS (REDIS_BLACKLIST_PREFIX @ token)) w;
          w2 = w1\<lparr>trace := trace w1 @ [VERIFY token]\<rparr>
      in if faulty w \<or> blacklisted w token then w1
         else (case jwt_verify E token (JWT_SECRET E) verify_options (instant 1 w) of
                 Inl e \<Rightarrow> w2
               | Inr p \<Rightarrow>
                   if sessionId p \<noteq> [] then snd (updateSessionLastUsed E (sessionId p) w2)
                   else w2))"
  by (simp add: verifyToken_def io_defs redis_exists_def jwt_verify_io_def blacklisted_def
      updateSessionLastUsed_returns split: sum.splits)

text \<open>
  C1. For every input string, whatever the store holds and whatever the token library
  answers, \<^verbatim>\<open>verifyToken\<close> returns (it never throws), and what it returns is \<open>None\<close>
  (\<^verbatim>\<open>null\<close>) when the token is blacklisted, when the store rejects the lookup, and when the
  library rejects the token with any exception (expired, malformed, bad signature): the
  returned value is the same \<open>None\<close> in all these cases.
\<close>

theorem verifyToken_collapses_to_null:
  "(\<exists>r. fst (verifyToken E token w) = Inr r) \<and>
   (blacklisted w token \<longrightarrow> fst (verifyToken E token w) = Inr None) \<and>
   (faulty w \<longrightarrow> fst (verifyToken E token w) = Inr None) \<and>
   (\<forall>e. jwt_verify E token (JWT_SECRET E) verify_options (instant 1 w) = Inl e \<longrightarrow>
        fst (verifyToken E token w) = Inr None)"
  by (auto simp: verifyToken_result)

theorem verifyToken_collapses_to_null_witness:
  "blacklisted (demo_world 6000 [(''blacklist:tokA'', (''1'', Some 905999))] []) ''tokA'' \<and>
   fst (verifyToken demo_env ''tokA''
          (demo_world 6000 [(''blacklist:tokA'', (''1'', Some 905999))] [])) = Inr None \<and>
   faulty (demo_world 6000 [] [True]) \<and>
   fst (verifyToken demo_env ''tokA'' (demo_world 6000 [] [True])) = Inr None \<and>
   jwt_verify demo_env ''tokA'' (JWT_SECRET demo_env) verify_options
     (instant 1 (demo_world 905000 [] [])) = Inl TokenExpiredError \<and>
   fst (verifyToken demo_env ''tokA'' (demo_world 905000 [] [])) = Inr None \<and>
   jwt_verify demo_env ''junk'' (JWT_SECRET demo_env) verify_options
     (instant 1 (demo_world 6000 [] [])) = Inl JsonWebTokenError \<and>
   fst (verifyToken demo_env ''junk'' (demo_world 6000 [] [])) = Inr None"
  using
    verifyToken_collapses_to_null [of demo_env "''tokA''"
      "demo_world 6000 [(''blacklist:tokA'', (''1'', Some 905999))] []"]
    verifyToken_collapses_to_null [of demo_env "''tokA''" "demo_world 6000 [] [True]"]
    verifyToken_collapses_to_null [of demo_env "''tokA''" "demo_world 905000 [] []"]
    verifyToken_collapses_to_null [of demo_env "''junk''" "demo_world 6000 [] []"]
  by (simp add: blacklisted_def demo_defs)

lemma prefix_distinct:
  "REDIS_REFRESH_PREFIX @ a \<noteq> REDIS_TOKEN_PREFIX @ b"
  "REDIS_BLACKLIST_PREFIX @ a \<noteq> REDIS_TOKEN_PREFIX @ b"
  "REDIS_BLACKLIST_PREFIX @ a \<noteq> REDIS_REFRESH_PREFIX @ b"
  "REDIS_TOKEN_PREFIX @ b \<noteq> REDIS_REFRESH_PREFIX @ a"
  "REDIS_TOKEN_PREFIX @ b \<noteq> REDIS_BLACKLIST_PREFIX @ a"
  "REDIS_REFRESH_PREFIX @ b \<noteq> REDIS_BLACKLIST_PREFIX @ a"
  by (simp_all add: REDIS_REFRESH_PREFIX_def REDIS_TOKEN_PREFIX_def REDIS_BLACKLIST_PREFIX_def)

lemma store_get_map_of:
  "map_of s k = map_of s' k \<Longrightarrow> store_get t s k = store_get t s' k"
  by (simp add: store_get_def)

lemma verifyToken_frame:
  assumes "\<And>sid. k \<noteq> REDIS_TOKEN_PREFIX @ sid"
  shows "map_of (kv (snd (verifyToken E token w))) k = map_of (kv w) k"
  using assms
  by (simp add: verifyToken_world Let_def advance_fields updateSessionLastUsed_frame
      split: sum.splits)

text \<open>
  C2. The events a call of \<^verbatim>\<open>verifyToken\<close> adds to the trace begin with the lookup of the
  blacklist row. For a blacklisted token no signature verification is among them, the store is
  unchanged and the result is \<open>None\<close>. A signature verification, when there is one, is the
  second event. Anything after it (the touch of the session row, which is the only place
  where the store can change) happens only when the verification has succeeded, and starts
  with the read of the session row of the verified claims.
\<close>

theorem verifyToken_check_order:
  "let w' = snd (verifyToken E token w);
       evs = drop (length (trace w)) (trace w')
   in trace w' = trace w @ evs \<and>
      take 1 evs = [EXISTS (REDIS_BLACKLIST_PREFIX @ token)] \<and>
      (blacklisted w token \<longrightarrow>
         VERIFY token \<notin> set evs \<and> kv w' = kv w \<and> fst (verifyToken E token w) = Inr None) \<and>
      (VERIFY token \<in> set evs \<longrightarrow>
         take 2 evs = [EXISTS (REDIS_BLACKLIST_PREFIX @ token), VERIFY token]) \<and>
      (2 < length evs \<or> kv w' \<noteq> kv w \<longrightarrow>
         (\<exists>p. jwt_verify E token (JWT_SECRET E) verify_options (instant 1 w) = Inr p \<and>
              fst (verifyToken E token w) = Inr (Some p) \<and>
              take 3 evs = [EXISTS (REDIS_BLACKLIST_PREFIX @ token), VERIFY token,
                            GET (REDIS_TOKEN_PREFIX @ sessionId p)]))"
proof -
  define w1 where "w1 = advance (EXISTS (REDIS_BLACKLIST_PREFIX @ token)) w"
  define w2 where "w2 = w1\<lparr>trace := trace w1 @ [VERIFY token]\<rparr>"
  have W: "snd (verifyToken E token w) =
     (if faulty w \<or> blacklisted w token then w1
      else (case jwt_verify E token (JWT_SECRET E) verify_options (instant 1 w) of
              Inl e \<Rightarrow> w2
            | Inr p \<Rightarrow>
                if sessionId p \<noteq> [] then snd (updateSessionLastUsed E (sessionId p) w2)
                else w2))"
    by (simp add: verifyToken_world w1_def w2_def Let_def split: sum.splits)
  have f1: "trace w1 = trace w @ [EXISTS (REDIS_BLACKLIST_PREFIX @ token)]" "kv w1 = kv w"
    and f2: "trace w2 = trace w @ [EXISTS (REDIS_BLACKLIST_PREFIX @ token), VERIFY token]"
      "kv w2 = kv w"
    by (simp_all add: w1_def w2_def advance_fields)
  show ?thesis
  proof (cases "faulty w \<or> blacklisted w token")
    case True
    then show ?thesis
      unfolding Let_def W by (auto simp: f1 verifyToken_result)
  next
    case nb: False
    show ?thesis
    proof (cases "jwt_verify E token (JWT_SECRET E) verify_options (instant 1 w)")
      case (Inl e)
      with nb show ?thesis
        unfolding Let_def W by (auto simp: f1 f2 verifyToken_result)
    next
      case (Inr p)
      show ?thesis
      proof (cases "sessionId p = []")
        case True
        with nb Inr show ?thesis
          unfolding Let_def W by (auto simp: f1 f2 verifyToken_result)
      next
        case False
        obtain rest where r:
          "trace (snd (updateSessionLastUsed E (sessionId p) w2)) =
             trace w2 @ GET (REDIS_TOKEN_PREFIX @ sessionId p) # rest"
          using updateSessionLastUsed_trace by blast
        from nb Inr False show ?thesis
          unfolding Let_def W by (simp add: r verifyToken_result f2)
      qed
    qed
  qed
qed

theorem verifyToken_check_order_witness:
  "blacklisted (demo_world 6000 [(''blacklist:tokA'', (''1'', Some 905999))] []) ''tokA'' \<and>
   trace (snd (verifyToken demo_env ''tokA''
                 (demo_world 6000 [(''blacklist:tokA'', (''1'', Some 905999))] [])))
     = [EXISTS ''blacklist:tokA''] \<and>
   trace (snd (verifyToken demo_env ''tokA'' (demo_world 905000 demo_store [])))
     = [EXISTS ''blacklist:tokA'', VERIFY ''tokA''] \<and>
   trace (snd (verifyToken demo_env ''tokA'' (demo_world 605000 demo_store [])))
     = [EXISTS ''blacklist:tokA'', VERIFY ''tokA'', GET ''token:S1'', TTL ''token:S1'',
        SETEX ''token:S1'' 604200 ''j605''] \<and>
   fst (verifyToken demo_env ''tokA'' (demo_world 605000 demo_store []))
     = Inr (Some (stamped (demo_payload Access) (sign_options ACCESS_TOKEN_EXPIRY) 5000))"
  using
    verifyToken_check_order [of demo_env "''tokA''"
      "demo_world 6000 [(''blacklist:tokA'', (''1'', Some 905999))] []"]
    verifyToken_check_order [of demo_env "''tokA''" "demo_world 605000 demo_store []"]
  by (simp add: run_defs blacklisted_def)

section \<open>refreshAccessToken\<close>

lemma refreshAccessToken_result:
  "fst (refreshAccessToken E token w) =
     Inr (case fst (verifyToken E token w) of
            Inl e \<Rightarrow> None
          | Inr None \<Rightarrow> None
          | Inr (Some p) \<Rightarrow>
              if tokenType p \<noteq> Refresh \<or> faulty (snd (verifyToken E token w)) \<or> token = [] \<or>
                 store_get (instant 1 (snd (verifyToken E token w)))
                   (kv (snd (verifyToken E token w)))
                   (REDIS_REFRESH_PREFIX @ sessionId p) \<noteq> Some token
              then None
              else (case jwt_sign E (access_claims p) (JWT_SECRET E)
                           (sign_options ACCESS_TOKEN_EXPIRY)
                           (instant 1 (snd (verifyToken E token w))) of
                      Inl e \<Rightarrow> None
                    | Inr a \<Rightarrow> Some (a, instant 1 (snd (verifyToken E token w)) + 15 * 60 * 1000)))"
  by (auto simp add: refreshAccessToken_def io_defs redis_get_def jwt_sign_io_def
      access_claims_def updateSessionLastUsed_returns split: sum.splits option.splits)

lemma refreshAccessToken_frame:
  assumes "\<And>sid. k \<noteq> REDIS_TOKEN_PREFIX @ sid"
  shows "map_of (kv (snd (refreshAccessToken E token w))) k = map_of (kv w) k"
  using assms
  by (simp add: refreshAccessToken_def io_defs redis_get_def jwt_sign_io_def verifyToken_frame
      updateSessionLastUsed_frame split: sum.splits option.splits)

text \<open>
  C4. \<^verbatim>\<open>refreshAccessToken\<close> never throws, and when it returns a result other than \<open>None\<close>
  then the presented token verified, its claims have type \<open>Refresh\<close>, the refresh row stored
  for the session of these claims is (at the instant it is read) the presented string, and
  the result is a newly signed access token for the same user, email and session with its
  expiry instant (15 minutes from the signing), and nothing else. In every case every refresh
  row of the store is left as it was.
\<close>

theorem refreshAccessToken_no_rotation:
  "(\<exists>r. fst (refreshAccessToken E token w) = Inr r) \<and>
   (fst (refreshAccessToken E token w) = Inr (Some (a, t)) \<longrightarrow>
      (\<exists>p. fst (verifyToken E token w) = Inr (Some p) \<and> tokenType p = Refresh \<and>
           store_get (instant 1 (snd (verifyToken E token w))) (kv w)
             (REDIS_REFRESH_PREFIX @ sessionId p) = Some token \<and>
           jwt_sign E (access_claims p) (JWT_SECRET E) (sign_options ACCESS_TOKEN_EXPIRY)
             (instant 1 (snd (verifyToken E token w))) = Inr a \<and>
           t = instant 1 (snd (verifyToken E token w)) + 15 * 60 * 1000)) \<and>
   (\<forall>sid. map_of (kv (snd (refreshAccessToken E token w))) (REDIS_REFRESH_PREFIX @ sid)
           = map_of (kv w) (REDIS_REFRESH_PREFIX @ sid))"
proof -
  have f: "\<And>p t. store_get t (kv (snd (verifyToken E token w)))
             (REDIS_REFRESH_PREFIX @ sessionId p)
           = store_get t (kv w) (REDIS_REFRESH_PREFIX @ sessionId p)"
    by (rule store_get_map_of) (simp add: verifyToken_frame prefix_distinct)
  show ?thesis
    by (auto simp: refreshAccessToken_result f refreshAccessToken_frame prefix_distinct
        split: sum.splits option.splits if_splits)
qed

theorem refreshAccessToken_no_rotation_witness:
  "refreshAccessToken demo_env ''tokR'' (demo_world 5500 demo_store []) =
     (Inr (Some (''tokA'', 905500)),
      \<lparr>kv = [(''refresh:S1'', (''tokR'', Some 604805000)),
             (''token:S1'', (''j55'', Some 604805500))],
       faults = [], delays = [], clock = 5500,
       trace = [EXISTS ''blacklist:tokR'', VERIFY ''tokR'', GET ''token:S1'', TTL ''token:S1'',
                SETEX ''token:S1'' 604800 ''j55'', GET ''refresh:S1'', GET ''token:S1'',
                TTL ''token:S1'', SETEX ''token:S1'' 604800 ''j55'']\<rparr>) \<and>
   fst (verifyToken demo_env ''tokR'' (demo_world 5500 demo_store []))
     = Inr (Some (stamped (demo_payload Refresh) (sign_options REFRESH_TOKEN_EXPIRY) 5000)) \<and>
   store_get 5500 demo_store ''refresh:S1'' = Some ''tokR'' \<and>
   fst (refreshAccessToken demo_env ''tokR''
         (demo_world 5500 [(''refresh:S1'', (''tokX'', Some 604805000))] [])) = Inr None \<and>
   fst (refreshAccessToken demo_env ''tokA'' (demo_world 5500 demo_store [])) = Inr None"
  using refreshAccessToken_no_rotation
    [of demo_env "''tokR''" "demo_world 5500 demo_store []" "''tokA''" 905500]
  by (simp add: run_defs)

section \<open>revokeToken\<close>

text \<open>
  C6 (amended). For a token whose decoded claims carry \<^verbatim>\<open>exp = e\<close>, the time to live that
  \<^verbatim>\<open>revokeToken\<close> computes is \<open>e\<close> minus the current time in whole seconds. When it is not
  positive (the token has expired) the call changes nothing. The store changes only when it
  is positive. When it is positive (and the store accepts the command) the call issues one
  \<^verbatim>\<open>SETEX\<close> of the blacklist row with exactly that time to live, which the store counts
  from the instant at which it executes the command. So the row is there until the token
  expires, and beyond that for the milliseconds by which the clock had passed the last full
  second at the revocation plus the time the command took to reach the store.
\<close>

theorem revokeToken_blacklist_ttl:
  assumes "jwt_decode E token = Some p" and "exp p = Some e"
  shows "(e - unix_time (clock w) \<le> 0 \<longrightarrow> revokeToken E token w = (Inr (), w)) \<and>
         (kv (snd (revokeToken E token w)) \<noteq> kv w \<longrightarrow> 0 < e - unix_time (clock w)) \<and>
         (0 < e - unix_time (clock w) \<and> e \<noteq> 0 \<and> \<not> faulty w \<longrightarrow>
            revokeToken E token w =
              (Inr (),
               (advance (SETEX (REDIS_BLACKLIST_PREFIX @ token) (e - unix_time (clock w)) ''1'') w)
                 \<lparr>kv := AList.update (REDIS_BLACKLIST_PREFIX @ token)
                          (''1'', Some (instant 1 w + (e - unix_time (clock w)) * 1000)) (kv w)\<rparr>) \<and>
            instant 1 w + (e - unix_time (clock w)) * 1000
              = e * 1000 + clock w mod 1000 + (instant 1 w - clock w) \<and>
            (\<forall>t. store_get t (kv (snd (revokeToken E token w))) (REDIS_BLACKLIST_PREFIX @ token)
                   = (if t \<le> e * 1000 + clock w mod 1000 + (instant 1 w - clock w)
                      then Some ''1'' else None)))"
proof -
  have m: "unix_time (clock w) * 1000 + clock w mod 1000 = clock w"
    by (simp add: unix_time_def)
  show ?thesis
    using assms m
    by (auto simp: revokeToken_def io_defs redis_setex_def store_get_def live_def
        update_conv')
qed

theorem revokeToken_blacklist_ttl_witness:
  "jwt_decode demo_env ''tokA''
     = Some (stamped (demo_payload Access) (sign_options ACCESS_TOKEN_EXPIRY) 5000) \<and>
   exp (stamped (demo_payload Access) (sign_options ACCESS_TOKEN_EXPIRY) 5000) = Some 905 \<and>
   revokeToken demo_env ''tokA'' (slow_world 6999 [20] []) =
     (Inr (), \<lparr>kv = [(''blacklist:tokA'', (''1'', Some 906019))], faults = [], delays = [],
              clock = 7019, trace = [SETEX ''blacklist:tokA'' 899 ''1'']\<rparr>) \<and>
   revokeToken demo_env ''tokA'' (demo_world 905000 [] []) = (Inr (), demo_world 905000 [] [])"
proof -
  have a: "jwt_decode demo_env ''tokA''
     = Some (stamped (demo_payload Access) (sign_options ACCESS_TOKEN_EXPIRY) 5000)"
    by (simp add: demo_defs)
  have b: "exp (stamped (demo_payload Access) (sign_options ACCESS_TOKEN_EXPIRY) 5000) = Some 905"
    by (simp add: demo_defs)
  show ?thesis
    using a b revokeToken_blacklist_ttl [OF a b, of "slow_world 6999 [20] []"]
      revokeToken_blacklist_ttl [OF a b, of "demo_world 905000 [] []"]
    by (simp add: demo_defs advance_def)
qed

text \<open>
  C6 as stated fails: the blacklist row outlives the token. A token that expires at second
  905 is revoked at 6.999 s; half a second after its expiry the library rejects the token as
  expired, and the blacklist row is still there.
\<close>

theorem revokeToken_outlives_counterexample:
  "fst (revokeToken demo_env ''tokA'' (demo_world 6999 [] [])) = Inr () \<and>
   exp (stamped (demo_payload Access) (sign_options ACCESS_TOKEN_EXPIRY) 5000) = Some 905 \<and>
   jwt_verify demo_env ''tokA'' (JWT_SECRET demo_env) verify_options 905500
     = Inl TokenExpiredError \<and>
   store_get 905500 (kv (snd (revokeToken demo_env ''tokA'' (demo_world 6999 [] []))))
     ''blacklist:tokA'' = Some ''1'' \<and>
   blacklisted (demo_world 905500
                  (kv (snd (revokeToken demo_env ''tokA'' (demo_world 6999 [] [])))) [])
     ''tokA''"
  by (simp add: run_defs blacklisted_def)

text \<open>
  C9. When the string cannot be decoded, or its decoded claims have no \<^verbatim>\<open>exp\<close>,
  \<^verbatim>\<open>revokeToken\<close> returns normally and leaves the world as it was: no command is sent to the
  store, so no blacklist row is written. What it returns is what every call that returns
  normally returns, a revocation that did write the row included.
\<close>

theorem revokeToken_silent_noop:
  assumes "jwt_decode E token = None \<or> (\<exists>p. jwt_decode E token = Some p \<and> exp p = None)"
  shows "revokeToken E token w = (Inr (), w) \<and>
         (\<forall>E' token' w' r. fst (revokeToken E' token' w') = Inr r \<longrightarrow>
            fst (revokeToken E' token' w') = fst (revokeToken E token w))"
  using assms by (auto simp: revokeToken_def io_defs)

theorem revokeToken_silent_noop_witness:
  "jwt_decode demo_env ''junk'' = None \<and>
   revokeToken demo_env ''junk'' (demo_world 6000 [] []) = (Inr (), demo_world 6000 [] []) \<and>
   (\<exists>p. jwt_decode demo_env ''tokN'' = Some p \<and> exp p = None) \<and>
   revokeToken demo_env ''tokN'' (demo_world 6000 [] [True])
     = (Inr (), demo_world 6000 [] [True]) \<and>
   fst (revokeToken demo_env ''tokA'' (demo_world 6000 [] [])) = Inr () \<and>
   kv (snd (revokeToken demo_env ''tokA'' (demo_world 6000 [] [])))
     = [(''blacklist:tokA'', (''1'', Some 905000))]"
proof -
  have a: "jwt_decode demo_env ''junk'' = None"
    by (simp add: demo_defs)
  have b: "\<exists>p. jwt_decode demo_env ''tokN'' = Some p \<and> exp p = None"
    by (simp add: demo_defs)
  show ?thesis
    using a b revokeToken_silent_noop [of demo_env "''junk''" "demo_world 6000 [] []"]
      revokeToken_silent_noop [of demo_env "''tokN''" "demo_world 6000 [] [True]"]
    by (simp add: run_defs)
qed

section \<open>Failures of the touch\<close>

text \<open>
  C10. The touch helper returns normally whatever the store does (a rejected command, a
  missing row, a row that does not parse). Hence \<^verbatim>\<open>verifyToken\<close> returns the claims as soon
  as the blacklist lookup was answered, the token is not blacklisted and the library accepts
  it, whatever happens to the commands of the touch; a result \<open>None\<close> can only come from the
  blacklist lookup or the verification. Likewise \<^verbatim>\<open>refreshAccessToken\<close> returns the new
  access token as soon as the verification, the type check, the read of the refresh row and
  the signing succeeded, whatever happens to the touch that follows.
\<close>

theorem touch_failures_are_swallowed:
  "fst (updateSessionLastUsed E sid w) = Inr () \<and>
   (\<not> faulty w \<and> \<not> blacklisted w token \<and>
    jwt_verify E token (JWT_SECRET E) verify_options (instant 1 w) = Inr p \<longrightarrow>
      fst (verifyToken E token w) = Inr (Some p)) \<and>
   (fst (verifyToken E token w) = Inr None \<longrightarrow>
      faulty w \<or> blacklisted w token \<or>
      (\<exists>e. jwt_verify E token (JWT_SECRET E) verify_options (instant 1 w) = Inl e)) \<and>
   (fst (verifyToken E token w) = Inr (Some p) \<and> tokenType p = Refresh \<and>
    \<not> faulty (snd (verifyToken E token w)) \<and> token \<noteq> [] \<and>
    store_get (instant 1 (snd (verifyToken E token w))) (kv (snd (verifyToken E token w)))
      (REDIS_REFRESH_PREFIX @ sessionId p) = Some token \<and>
    jwt_sign E (access_claims p) (JWT_SECRET E) (sign_options ACCESS_TOKEN_EXPIRY)
      (instant 1 (snd (verifyToken E token w))) = Inr a \<longrightarrow>
      fst (refreshAccessToken E token w)
        = Inr (Some (a, instant 1 (snd (verifyToken E token w)) + 15 * 60 * 1000)))"
  by (auto simp: updateSessionLastUsed_returns verifyToken_result refreshAccessToken_result
      split: sum.splits if_splits)

theorem touch_failures_are_swallowed_witness:
  "fst (updateSessionLastUsed demo_env ''S1'' (demo_world 6000 demo_store [True])) = Inr () \<and>
   \<not> faulty (demo_world 6000 demo_store [False, True]) \<and>
   \<not> blacklisted (demo_world 6000 demo_store [False, True]) ''tokA'' \<and>
   verifyToken demo_env ''tokA'' (demo_world 6000 demo_store [False, True])
     = (Inr (Some (stamped (demo_payload Access) (sign_options ACCESS_TOKEN_EXPIRY) 5000)),
        \<lparr>kv = demo_store, faults = [], delays = [], clock = 6000,
         trace = [EXISTS ''blacklist:tokA'', VERIFY ''tokA'', GET ''token:S1'']\<rparr>) \<and>
   fst (refreshAccessToken demo_env ''tokR''
          (demo_world 5500 demo_store [False, True, False, True]))
     = Inr (Some (''tokA'', 905500))"
  using
    touch_failures_are_swallowed [of demo_env "''S1''" "demo_world 6000 demo_store [True]"]
    touch_failures_are_swallowed
      [of demo_env _ "demo_world 6000 demo_store [False, True]" "''tokA''"
          "stamped (demo_payload Access) (sign_options ACCESS_TOKEN_EXPIRY) 5000"]
    touch_failures_are_swallowed
      [of demo_env _ "demo_world 5500 demo_store [False, True, False, True]" "''tokR''"
          "stamped (demo_payload Refresh) (sign_options REFRESH_TOKEN_EXPIRY) 5000" "''tokA''"]
  by (simp add: run_defs blacklisted_def access_claims_def)

section \<open>What the touch writes\<close>

lemma touch_ttl_positive: "0 < touch_ttl x t"
  by (simp add: touch_ttl_def)

lemma updateSessionLastUsed_effect:
  assumes "faults w = []"
    and "map_of (kv w) (REDIS_TOKEN_PREFIX @ sid) = Some (d, x)"
    and "live (instant 1 w) (d, x)" and "d \<noteq> []" and "JSON_parse E d = Inr m"
  shows "kv (snd (updateSessionLastUsed E sid w)) =
           AList.update (REDIS_TOKEN_PREFIX @ sid)
             (JSON_stringify E (m\<lparr>lastUsedAt := instant 1 w\<rparr>),
              Some (instant 3 w + touch_ttl x (instant 2 w) * 1000)) (kv w)"
    and "faults (snd (updateSessionLastUsed E sid w)) = []"
  using assms touch_ttl_positive [of x "instant 2 w"]
  by (auto simp: updateSessionLastUsed_def io_defs redis_defs store_get_def faulty_def
      touch_ttl_def eval_nat_numeral)

lemma refreshAccessToken_world:
  assumes "fst (refreshAccessToken E token w) = Inr (Some r)"
    and "fst (verifyToken E token w) = Inr (Some p)"
  shows "snd (refreshAccessToken E token w) =
           snd (updateSessionLastUsed E (sessionId p)
                  (advance (GET (REDIS_REFRESH_PREFIX @ sessionId p))
                     (snd (verifyToken E token w))))"
  using assms
  by (simp add: refreshAccessToken_def io_defs redis_get_def jwt_sign_io_def
      updateSessionLastUsed_returns split: sum.splits option.splits if_splits)

lemma verifyToken_faults:
  "faults w = [] \<Longrightarrow> faults (snd (verifyToken E token w)) = []"
  by (simp add: verifyToken_def io_defs redis_defs jwt_verify_io_def updateSessionLastUsed_def
      split: sum.splits option.splits)

text \<open>
  C3 (amended). When the store answers every command, a successful \<^verbatim>\<open>verifyToken\<close> whose
  claims name a session whose row is found and parses rewrites that row with \<^verbatim>\<open>lastUsedAt\<close>
  set to the current instant, and with the time to live that \<^verbatim>\<open>TTL\<close> has just reported for
  the row (the time that remained, in whole seconds), counted anew from the instant of the
  rewrite. The full window of 7 days is written only when \<^verbatim>\<open>TTL\<close> reports nothing positive:
  a row without expiry, less than half a second left, or a row that has gone in the
  meantime. A successful \<^verbatim>\<open>refreshAccessToken\<close> ends with a second touch, which does the same
  to the row it finds.
\<close>

theorem touch_keeps_remaining_ttl:
  assumes nofault: "faults w = []"
    and ok: "fst (verifyToken E token w) = Inr (Some p)"
    and sid: "sessionId p \<noteq> []"
    and row: "map_of (kv w) (REDIS_TOKEN_PREFIX @ sessionId p) = Some (d, x)"
             "live (instant 2 w) (d, x)" "d \<noteq> []"
    and parse: "JSON_parse E d = Inr m"
  shows "map_of (kv (snd (verifyToken E token w))) (REDIS_TOKEN_PREFIX @ sessionId p) =
           Some (JSON_stringify E (m\<lparr>lastUsedAt := instant 2 w\<rparr>),
                 Some (instant 4 w + touch_ttl x (instant 3 w) * 1000)) \<and>
         (\<forall>r w3 d3 x3 m3.
            fst (refreshAccessToken E token w) = Inr (Some r) \<and>
            w3 = advance (GET (REDIS_REFRESH_PREFIX @ sessionId p)) (snd (verifyToken E token w)) \<and>
            map_of (kv w3) (REDIS_TOKEN_PREFIX @ sessionId p) = Some (d3, x3) \<and>
            live (instant 1 w3) (d3, x3) \<and> d3 \<noteq> [] \<and> JSON_parse E d3 = Inr m3 \<longrightarrow>
            map_of (kv (snd (refreshAccessToken E token w))) (REDIS_TOKEN_PREFIX @ sessionId p) =
              Some (JSON_stringify E (m3\<lparr>lastUsedAt := instant 1 w3\<rparr>),
                    Some (instant 3 w3 + touch_ttl x3 (instant 2 w3) * 1000)))"
proof -
  let ?k = "REDIS_TOKEN_PREFIX @ sessionId p"
  let ?w1 = "snd (verifyToken E token w)"
  define w2 where
    "w2 = (advance (EXISTS (REDIS_BLACKLIST_PREFIX @ token)) w)
            \<lparr>trace := trace w @ [EXISTS (REDIS_BLACKLIST_PREFIX @ token), VERIFY token]\<rparr>"
  from ok have v: "\<not> faulty w" "\<not> blacklisted w token"
    "jwt_verify E token (JWT_SECRET E) verify_options (instant 1 w) = Inr p"
    by (auto simp: verifyToken_result split: if_splits sum.splits)
  have w1: "?w1 = snd (updateSessionLastUsed E (sessionId p) w2)"
    using v sid by (simp add: verifyToken_world Let_def w2_def advance_fields)
  have f2: "faults w2 = []" and k2: "kv w2 = kv w"
    and i2: "\<And>n. instant n w2 = instant (Suc n) w"
    using nofault by (simp_all add: w2_def advance_fields instant_updates instant_advance)
  have m2: "map_of (kv w2) ?k = Some (d, x)"
    using row(1) by (simp add: k2)
  have r2: "live (instant 1 w2) (d, x)"
    using row(2) by (simp add: i2 eval_nat_numeral)
  have "kv ?w1 = AList.update ?k (JSON_stringify E (m\<lparr>lastUsedAt := instant 1 w2\<rparr>),
                    Some (instant 3 w2 + touch_ttl x (instant 2 w2) * 1000)) (kv w2)"
    unfolding w1 by (rule updateSessionLastUsed_effect(1) [OF f2 m2 r2 row(3) parse])
  then have first: "map_of (kv ?w1) ?k =
      Some (JSON_stringify E (m\<lparr>lastUsedAt := instant 2 w\<rparr>),
            Some (instant 4 w + touch_ttl x (instant 3 w) * 1000))"
    by (simp add: update_conv' i2 eval_nat_numeral)
  have second: "map_of (kv (snd (refreshAccessToken E token w))) ?k =
      Some (JSON_stringify E (m3\<lparr>lastUsedAt := instant 1 w3\<rparr>),
            Some (instant 3 w3 + touch_ttl x3 (instant 2 w3) * 1000))"
    if r: "fst (refreshAccessToken E token w) = Inr (Some r)"
      and w3: "w3 = advance (GET (REDIS_REFRESH_PREFIX @ sessionId p)) ?w1"
      and row3: "map_of (kv w3) ?k = Some (d3, x3)" "live (instant 1 w3) (d3, x3)" "d3 \<noteq> []"
      and parse3: "JSON_parse E d3 = Inr m3" for r w3 d3 x3 m3
  proof -
    have w': "snd (refreshAccessToken E token w) = snd (updateSessionLastUsed E (sessionId p) w3)"
      using refreshAccessToken_world [OF r ok] by (simp add: w3)
    have f3: "faults w3 = []"
      using verifyToken_faults [OF nofault, of E token] by (simp add: w3 advance_fields)
    show ?thesis
      unfolding w'
      by (simp add: updateSessionLastUsed_effect(1) [OF f3 row3 parse3] update_conv')
  qed
  from first second show ?thesis by blast
qed

theorem touch_keeps_remaining_ttl_witness:
  "faults (slow_world 605400 [0, 30, 50, 20] demo_store) = [] \<and>
   fst (verifyToken demo_env ''tokA'' (slow_world 605400 [0, 30, 50, 20] demo_store))
     = Inr (Some (stamped (demo_payload Access) (sign_options ACCESS_TOKEN_EXPIRY) 5000)) \<and>
   map_of (kv (slow_world 605400 [0, 30, 50, 20] demo_store)) ''token:S1''
     = Some (''j5'', Some 604805000) \<and>
   live (instant 2 (slow_world 605400 [0, 30, 50, 20] demo_store)) (''j5'', Some 604805000) \<and>
   JSON_parse demo_env ''j5'' = Inr (demo_session 5000) \<and>
   touch_ttl (Some 604805000) (instant 3 (slow_world 605400 [0, 30, 50, 20] demo_store))
     = 604200 \<and>
   map_of (kv (snd (verifyToken demo_env ''tokA''
                      (slow_world 605400 [0, 30, 50, 20] demo_store)))) ''token:S1''
     = Some (JSON_stringify demo_env ((demo_session 5000)\<lparr>lastUsedAt := 605430\<rparr>),
             Some 604805500) \<and>
   fst (refreshAccessToken demo_env ''tokR'' (demo_world 5500 demo_store []))
     = Inr (Some (''tokA'', 905500)) \<and>
   map_of (kv (snd (refreshAccessToken demo_env ''tokR'' (demo_world 5500 demo_store []))))
     ''token:S1'' = Some (''j55'', Some 604805500)"
proof -
  let ?w = "slow_world 605400 [0, 30, 50, 20] demo_store"
  let ?v = "demo_world 5500 demo_store []"
  let ?pa = "stamped (demo_payload Access) (sign_options ACCESS_TOKEN_EXPIRY) 5000"
  let ?pr = "stamped (demo_payload Refresh) (sign_options REFRESH_TOKEN_EXPIRY) 5000"
  have f: "faults ?w = []" "faults ?v = []"
    by (simp_all add: demo_defs)
  have va: "fst (verifyToken demo_env ''tokA'' ?w) = Inr (Some ?pa)"
    by (simp add: run_defs)
  have vr: "fst (verifyToken demo_env ''tokR'' ?v) = Inr (Some ?pr)"
    by (simp add: run_defs)
  have sa: "sessionId ?pa \<noteq> []" and sr: "sessionId ?pr \<noteq> []"
    by (simp_all add: demo_defs)
  have ra: "map_of (kv ?w) (REDIS_TOKEN_PREFIX @ sessionId ?pa) = Some (''j5'', Some 604805000)"
    and rr: "map_of (kv ?v) (REDIS_TOKEN_PREFIX @ sessionId ?pr) = Some (''j5'', Some 604805000)"
    by (simp_all add: demo_defs demo_store_def)
  have l: "live (instant 2 ?w) (''j5'', Some 604805000)"
    "live (instant 2 ?v) (''j5'', Some 604805000)"
    by (simp_all add: demo_defs)
  have n: "''j5'' \<noteq> []" by simp
  have p: "JSON_parse demo_env ''j5'' = Inr (demo_session 5000)"
    by (simp add: demo_defs)
  have t: "touch_ttl (Some 604805000) (instant 3 ?w) = 604200"
    by (simp add: demo_defs)
  have i: "instant 2 ?w = 605430" "instant 4 ?w = 605500"
    by (simp_all add: demo_defs)
  have rf: "fst (refreshAccessToken demo_env ''tokR'' ?v) = Inr (Some (''tokA'', 905500))"
    by (simp add: run_defs)
  define w3 where "w3 = advance (GET (REDIS_REFRESH_PREFIX @ sessionId ?pr))
                          (snd (verifyToken demo_env ''tokR'' ?v))"
  have w3: "w3 = \<lparr>kv = [(''refresh:S1'', (''tokR'', Some 604805000)),
                        (''token:S1'', (''j55'', Some 604805500))],
                  faults = [], delays = [], clock = 5500,
                  trace = [EXISTS ''blacklist:tokR'', VERIFY ''tokR'', GET ''token:S1'',
                           TTL ''token:S1'', SETEX ''token:S1'' 604800 ''j55'',
                           GET ''refresh:S1'']\<rparr>"
    unfolding w3_def by (simp add: run_defs)
  have row3: "map_of (kv w3) (REDIS_TOKEN_PREFIX @ sessionId ?pr) = Some (''j55'', Some 604805500)"
    "live (instant 1 w3) (''j55'', Some 604805500)" "''j55'' \<noteq> []"
    "JSON_parse demo_env ''j55'' = Inr (demo_session 5500)"
    by (simp_all add: w3 demo_defs)
  from touch_keeps_remaining_ttl [OF f(1) va sa ra l(1) n p]
  have 1: "map_of (kv (snd (verifyToken demo_env ''tokA'' ?w))) ''token:S1''
     = Some (JSON_stringify demo_env ((demo_session 5000)\<lparr>lastUsedAt := 605430\<rparr>),
             Some 604805500)"
    by (simp add: t i) (simp add: demo_defs)
  from touch_keeps_remaining_ttl [OF f(2) vr sr rr l(2) n p] rf w3_def row3
  have "map_of (kv (snd (refreshAccessToken demo_env ''tokR'' ?v)))
          (REDIS_TOKEN_PREFIX @ sessionId ?pr) =
        Some (JSON_stringify demo_env ((demo_session 5500)\<lparr>lastUsedAt := instant 1 w3\<rparr>),
              Some (instant 3 w3 + touch_ttl (Some 604805500) (instant 2 w3) * 1000))"
    by blast
  then have 2: "map_of (kv (snd (refreshAccessToken demo_env ''tokR'' ?v))) ''token:S1''
     = Some (''j55'', Some 604805500)"
    by (simp add: w3 demo_defs)
  from f(1) va ra l(1) p t 1 rf 2 show ?thesis
    by (simp add: demo_defs)
qed

text \<open>
  C3 as stated fails: ten minutes after the login, a successful \<^verbatim>\<open>verifyToken\<close> leaves the
  time to live of the session row at the 604200 seconds that remained, not at 604800.
\<close>

theorem touch_resets_ttl_counterexample:
  "fst (verifyToken demo_env ''tokA'' (demo_world 605000 demo_store []))
     = Inr (Some (stamped (demo_payload Access) (sign_options ACCESS_TOKEN_EXPIRY) 5000)) \<and>
   fst (redis_ttl ''token:S1'' (demo_world 605000 demo_store [])) = Inr 604200 \<and>
   fst (redis_ttl ''token:S1''
          (snd (verifyToken demo_env ''tokA'' (demo_world 605000 demo_store [])))) = Inr 604200 \<and>
   fst (redis_ttl ''token:S1''
          (snd (verifyToken demo_env ''tokA'' (demo_world 605000 demo_store []))))
     \<noteq> Inr (7 * 24 * 60 * 60)"
  by (simp add: run_defs)

text \<open>
  The full window is written when less than half a second remains at the \<^verbatim>\<open>TTL\<close> (it
  answers \<open>0\<close>), and when the row expires between the read and the \<^verbatim>\<open>TTL\<close> (it answers
  \<open>-2\<close>).
\<close>

lemma touch_full_window_example:
  "fst (redis_ttl ''token:S1''
          (slow_world 605430 [200] [(''token:S1'', (''j5'', Some 606000))])) = Inr 0 \<and>
   map_of (kv (snd (verifyToken demo_env ''tokA''
                      (slow_world 605400 [0, 30, 200, 20] [(''token:S1'', (''j5'', Some 606000))]))))
     ''token:S1'' = Some (''j'', Some 605405650) \<and>
   fst (redis_ttl ''token:S1''
          (slow_world 605430 [700] [(''token:S1'', (''j5'', Some 606000))])) = Inr (- 2) \<and>
   map_of (kv (snd (verifyToken demo_env ''tokA''
                      (slow_world 605400 [0, 30, 700, 20] [(''token:S1'', (''j5'', Some 606000))]))))
     ''token:S1'' = Some (''j'', Some 605406150)"
  by (simp add: run_defs)

section \<open>revokeSession\<close>

lemma revokeSession_effect:
  assumes "revokeSession sid w = (Inr (), w')"
  shows "w' = (advance (DEL (REDIS_TOKEN_PREFIX @ sid))
                 (advance (DEL (REDIS_REFRESH_PREFIX @ sid)) w))
              \<lparr>kv := AList.delete (REDIS_TOKEN_PREFIX @ sid)
                       (AList.delete (REDIS_REFRESH_PREFIX @ sid) (kv w))\<rparr>"
  using assms
  by (auto simp: revokeSession_def io_defs redis_del_def advance_def split: if_splits)

text \<open>
  C5 (amended). A call of \<^verbatim>\<open>revokeSession\<close> that returns has deleted exactly the refresh row
  and the session row of that session: its two commands are the two \<^verbatim>\<open>DEL\<close>, and the
  blacklist is as it was. Afterwards, at any time, \<^verbatim>\<open>refreshAccessToken\<close> returns \<open>None\<close>
  for every token whose claims name that session, while \<^verbatim>\<open>verifyToken\<close> still returns the
  claims of every token that was not blacklisted before, for as long as the library accepts
  the token (until its own \<^verbatim>\<open>exp\<close>): the access tokens of the session, and its refresh
  token as well.
\<close>

theorem revokeSession_frame:
  assumes rev: "revokeSession sid w = (Inr (), w')"
  shows "map_of (kv w') =
           (map_of (kv w))(REDIS_REFRESH_PREFIX @ sid := None, REDIS_TOKEN_PREFIX @ sid := None) \<and>
         trace w' = trace w @ [DEL (REDIS_REFRESH_PREFIX @ sid), DEL (REDIS_TOKEN_PREFIX @ sid)] \<and>
         (\<forall>token t. store_get t (kv w') (REDIS_BLACKLIST_PREFIX @ token)
                    = store_get t (kv w) (REDIS_BLACKLIST_PREFIX @ token)) \<and>
         (\<forall>v. kv v = kv w' \<and>
              (\<forall>p. jwt_verify E token (JWT_SECRET E) verify_options (instant 1 v) = Inr p \<longrightarrow>
                   sessionId p = sid)
            \<longrightarrow> fst (refreshAccessToken E token v) = Inr None) \<and>
         (\<forall>v p. kv v = kv w' \<and> \<not> faulty v \<and>
                store_get (instant 1 v) (kv w) (REDIS_BLACKLIST_PREFIX @ token) = None \<and>
                jwt_verify E token (JWT_SECRET E) verify_options (instant 1 v) = Inr p \<longrightarrow>
                fst (verifyToken E token v) = Inr (Some p))"
proof -
  note w' = revokeSession_effect [OF rev]
  have m: "map_of (kv w') =
           (map_of (kv w))(REDIS_REFRESH_PREFIX @ sid := None, REDIS_TOKEN_PREFIX @ sid := None)"
    by (simp add: w' delete_conv')
  have t: "trace w' = trace w @ [DEL (REDIS_REFRESH_PREFIX @ sid), DEL (REDIS_TOKEN_PREFIX @ sid)]"
    by (simp add: w' advance_fields)
  have b: "store_get t (kv w') (REDIS_BLACKLIST_PREFIX @ token)
             = store_get t (kv w) (REDIS_BLACKLIST_PREFIX @ token)" for t token
    by (simp add: store_get_def m prefix_distinct)
  have r: "fst (refreshAccessToken E token v) = Inr None"
    if v: "kv v = kv w'"
      and s: "\<forall>p. jwt_verify E token (JWT_SECRET E) verify_options (instant 1 v) = Inr p \<longrightarrow>
                  sessionId p = sid" for v
  proof -
    have "map_of (kv (snd (verifyToken E token v))) (REDIS_REFRESH_PREFIX @ sid)
            = map_of (kv v) (REDIS_REFRESH_PREFIX @ sid)"
      by (rule verifyToken_frame) (simp add: prefix_distinct)
    then have gone: "store_get t (kv (snd (verifyToken E token v))) (REDIS_REFRESH_PREFIX @ sid)
        = None" for t
      by (simp add: store_get_def v m prefix_distinct)
    show ?thesis
      using s gone
      by (auto simp: refreshAccessToken_result verifyToken_result split: sum.splits option.splits)
  qed
  have v: "fst (verifyToken E token v) = Inr (Some p)"
    if "kv v = kv w'" "\<not> faulty v"
       "store_get (instant 1 v) (kv w) (REDIS_BLACKLIST_PREFIX @ token) = None"
       "jwt_verify E token (JWT_SECRET E) verify_options (instant 1 v) = Inr p" for v p
    using that by (simp add: verifyToken_result blacklisted_def b)
  from m t b r v show ?thesis by blast
qed

theorem revokeSession_frame_witness:
  "revokeSession ''S1'' (demo_world 6000 demo_store [])
     = (Inr (), \<lparr>kv = [], faults = [], delays = [], clock = 6000,
                 trace = [DEL ''refresh:S1'', DEL ''token:S1'']\<rparr>) \<and>
   fst (refreshAccessToken demo_env ''tokR'' (demo_world 7000 [] [])) = Inr None \<and>
   fst (verifyToken demo_env ''tokA'' (demo_world 904999 [] []))
     = Inr (Some (stamped (demo_payload Access) (sign_options ACCESS_TOKEN_EXPIRY) 5000)) \<and>
   fst (verifyToken demo_env ''tokA'' (demo_world 905000 [] [])) = Inr None"
proof -
  let ?w' = "\<lparr>kv = [], faults = [], delays = [], clock = 6000,
              trace = [DEL ''refresh:S1'', DEL ''token:S1'']\<rparr>"
  have rev: "revokeSession ''S1'' (demo_world 6000 demo_store []) = (Inr (), ?w')"
    by (simp add: run_defs)
  have h1: "kv (demo_world 7000 [] []) = kv ?w' \<and>
     (\<forall>p. jwt_verify demo_env ''tokR'' (JWT_SECRET demo_env) verify_options
            (instant 1 (demo_world 7000 [] [])) = Inr p \<longrightarrow> sessionId p = ''S1'')"
    by (simp add: demo_defs)
  have h2: "kv (demo_world 904999 [] []) = kv ?w'" "\<not> faulty (demo_world 904999 [] [])"
    "store_get (instant 1 (demo_world 904999 [] [])) (kv (demo_world 6000 demo_store []))
       (REDIS_BLACKLIST_PREFIX @ ''tokA'') = None"
    "jwt_verify demo_env ''tokA'' (JWT_SECRET demo_env) verify_options
       (instant 1 (demo_world 904999 [] []))
       = Inr (stamped (demo_payload Access) (sign_options ACCESS_TOKEN_EXPIRY) 5000)"
    by (simp_all add: demo_defs demo_store_def)
  have exp: "fst (verifyToken demo_env ''tokA'' (demo_world 905000 [] [])) = Inr None"
    by (simp add: run_defs)
  from revokeSession_frame [OF rev, of demo_env "''tokR''"] h1
  have a: "fst (refreshAccessToken demo_env ''tokR'' (demo_world 7000 [] [])) = Inr None"
    by blast
  from revokeSession_frame [OF rev, of demo_env "''tokA''"] h2
  have b: "fst (verifyToken demo_env ''tokA'' (demo_world 904999 [] []))
     = Inr (Some (stamped (demo_payload Access) (sign_options ACCESS_TOKEN_EXPIRY) 5000))"
    by blast
  from rev a b exp show ?thesis by simp
qed

text \<open>
  C5 as stated fails on the refresh token: after the login of the concrete environment and
  \<^verbatim>\<open>revokeSession\<close> of its session, \<^verbatim>\<open>verifyToken\<close> of the refresh token of that session
  returns its claims, not \<open>None\<close>.
\<close>

theorem revokeSession_refresh_counterexample:
  "generateTokenPair demo_env ''u1'' ''a@x.com'' ''S1'' (demo_world 5000 [] [])
     = (Inr \<lparr>accessToken = ''tokA'', refreshToken = ''tokR'',
             accessTokenExpiresAt = 905000, refreshTokenExpiresAt = 604805000\<rparr>,
        \<lparr>kv = demo_store, faults = [], delays = [], clock = 5000,
         trace = [SETEX ''refresh:S1'' 604800 ''tokR'', SETEX ''token:S1'' 604800 ''j5'']\<rparr>) \<and>
   fst (revokeSession ''S1'' (demo_world 6000 demo_store [])) = Inr () \<and>
   fst (verifyToken demo_env ''tokR''
          ((snd (revokeSession ''S1'' (demo_world 6000 demo_store [])))\<lparr>clock := 7000\<rparr>))
     = Inr (Some (stamped (demo_payload Refresh) (sign_options REFRESH_TOKEN_EXPIRY) 5000)) \<and>
   fst (verifyToken demo_env ''tokR''
          ((snd (revokeSession ''S1'' (demo_world 6000 demo_store [])))\<lparr>clock := 7000\<rparr>))
     \<noteq> Inr None"
  by (simp add: run_defs)

section \<open>generateTokenPair\<close>

lemma prefix_neq:
  "REDIS_REFRESH_PREFIX \<noteq> REDIS_TOKEN_PREFIX"
  "REDIS_TOKEN_PREFIX \<noteq> REDIS_REFRESH_PREFIX"
  by (simp_all add: REDIS_REFRESH_PREFIX_def REDIS_TOKEN_PREFIX_def)

lemma generateTokenPair_effect:
  assumes "generateTokenPair E uid mail sid w = (Inr pair, w')"
  shows "jwt_sign E \<lparr>userId = uid, email = mail, sessionId = sid, tokenType = Access,
            exp = None, iat = None, iss = None, aud = None\<rparr>
           (JWT_SECRET E) (sign_options ACCESS_TOKEN_EXPIRY) (clock w) = Inr (accessToken pair)"
    and "jwt_sign E \<lparr>userId = uid, email = mail, sessionId = sid, tokenType = Refresh,
            exp = None, iat = None, iss = None, aud = None\<rparr>
           (JWT_SECRET E) (sign_options REFRESH_TOKEN_EXPIRY) (clock w) = Inr (refreshToken pair)"
    and "kv w' = AList.update (REDIS_TOKEN_PREFIX @ sid)
                   (JSON_stringify E \<lparr>session_userId = uid, session_email = mail,
                                       createdAt = instant 1 w, lastUsedAt = instant 1 w\<rparr>,
                    Some (instant 2 w + 7 * 24 * 60 * 60 * 1000))
                   (AList.update (REDIS_REFRESH_PREFIX @ sid)
                      (refreshToken pair, Some (instant 1 w + 7 * 24 * 60 * 60 * 1000)) (kv w))"
    and "accessTokenExpiresAt pair = clock w + 15 * 60 * 1000"
    and "refreshTokenExpiresAt pair = clock w + 7 * 24 * 60 * 60 * 1000"
  using assms
  by (auto simp: generateTokenPair_def io_defs redis_setex_def jwt_sign_io_def eval_nat_numeral
      split: sum.splits if_splits)

text \<open>
  C7. Over a token library in which a signed token verifies to the claims that were signed,
  a call of \<^verbatim>\<open>generateTokenPair\<close> that returns has stored the refresh token string and the
  session row under the session id, both with a time to live of 7 days, and, in any world
  where the store answers the blacklist lookup and the token is not blacklisted, verifying
  the access token (within 15 minutes) and the refresh token (within 7 days) gives claims
  with the user id and email that were signed, the same session id, and the types
  \<open>Access\<close> and \<open>Refresh\<close>.
\<close>

theorem generateTokenPair_roundtrip:
  assumes codec: "jwt_roundtrip E"
    and gen: "generateTokenPair E uid mail sid w = (Inr pair, w')"
  shows "map_of (kv w') (REDIS_REFRESH_PREFIX @ sid)
           = Some (refreshToken pair, Some (instant 1 w + 7 * 24 * 60 * 60 * 1000)) \<and>
         map_of (kv w') (REDIS_TOKEN_PREFIX @ sid)
           = Some (JSON_stringify E \<lparr>session_userId = uid, session_email = mail,
                                      createdAt = instant 1 w, lastUsedAt = instant 1 w\<rparr>,
                   Some (instant 2 w + 7 * 24 * 60 * 60 * 1000)) \<and>
         take 2 (drop (length (trace w)) (trace w'))
           = [SETEX (REDIS_REFRESH_PREFIX @ sid) (7 * 24 * 60 * 60) (refreshToken pair),
              SETEX (REDIS_TOKEN_PREFIX @ sid) (7 * 24 * 60 * 60)
                (JSON_stringify E \<lparr>session_userId = uid, session_email = mail,
                                    createdAt = instant 1 w, lastUsedAt = instant 1 w\<rparr>)] \<and>
         (\<forall>v. \<not> faulty v \<and> \<not> blacklisted v (accessToken pair) \<and>
              unix_time (instant 1 v) < unix_time (clock w) + 15 * 60 \<longrightarrow>
            (\<exists>pa. fst (verifyToken E (accessToken pair) v) = Inr (Some pa) \<and>
                  userId pa = uid \<and> email pa = mail \<and> sessionId pa = sid \<and>
                  tokenType pa = Access)) \<and>
         (\<forall>v. \<not> faulty v \<and> \<not> blacklisted v (refreshToken pair) \<and>
              unix_time (instant 1 v) < unix_time (clock w) + 7 * 24 * 60 * 60 \<longrightarrow>
            (\<exists>pr. fst (verifyToken E (refreshToken pair) v) = Inr (Some pr) \<and>
                  userId pr = uid \<and> email pr = mail \<and> sessionId pr = sid \<and>
                  tokenType pr = Refresh))"
proof -
  note g = generateTokenPair_effect [OF gen]
  have rows: "map_of (kv w') (REDIS_REFRESH_PREFIX @ sid)
           = Some (refreshToken pair, Some (instant 1 w + 7 * 24 * 60 * 60 * 1000))"
     "map_of (kv w') (REDIS_TOKEN_PREFIX @ sid)
           = Some (JSON_stringify E \<lparr>session_userId = uid, session_email = mail,
                                      createdAt = instant 1 w, lastUsedAt = instant 1 w\<rparr>,
                   Some (instant 2 w + 7 * 24 * 60 * 60 * 1000))"
    by (simp_all add: g(3) update_conv' prefix_neq)
  have tr: "take 2 (drop (length (trace w)) (trace w'))
           = [SETEX (REDIS_REFRESH_PREFIX @ sid) (7 * 24 * 60 * 60) (refreshToken pair),
              SETEX (REDIS_TOKEN_PREFIX @ sid) (7 * 24 * 60 * 60)
                (JSON_stringify E \<lparr>session_userId = uid, session_email = mail,
                                    createdAt = instant 1 w, lastUsedAt = instant 1 w\<rparr>)]"
    using gen
    by (auto simp: generateTokenPair_def io_defs redis_setex_def jwt_sign_io_def
        split: sum.splits if_splits)
  have va: "jwt_verify E (accessToken pair) (JWT_SECRET E) verify_options now'
      = Inr (stamped \<lparr>userId = uid, email = mail, sessionId = sid, tokenType = Access,
            exp = None, iat = None, iss = None, aud = None\<rparr>
            (sign_options ACCESS_TOKEN_EXPIRY) (clock w))"
    if "unix_time now' < unix_time (clock w) + 15 * 60" for now'
    using codec g(1) that unfolding jwt_roundtrip_def
    by (simp add: ACCESS_TOKEN_EXPIRY_def)
  have vr: "jwt_verify E (refreshToken pair) (JWT_SECRET E) verify_options now'
      = Inr (stamped \<lparr>userId = uid, email = mail, sessionId = sid, tokenType = Refresh,
            exp = None, iat = None, iss = None, aud = None\<rparr>
            (sign_options REFRESH_TOKEN_EXPIRY) (clock w))"
    if "unix_time now' < unix_time (clock w) + 7 * 24 * 60 * 60" for now'
    using codec g(2) that unfolding jwt_roundtrip_def
    by (simp add: REFRESH_TOKEN_EXPIRY_def)
  show ?thesis
    using rows tr va vr by (simp add: verifyToken_result stamped_def)
qed

theorem generateTokenPair_roundtrip_witness:
  "jwt_roundtrip demo_env \<and>
   generateTokenPair demo_env ''u1'' ''a@x.com'' ''S1'' (demo_world 5000 [] [])
     = (Inr \<lparr>accessToken = ''tokA'', refreshToken = ''tokR'',
             accessTokenExpiresAt = 905000, refreshTokenExpiresAt = 604805000\<rparr>,
        \<lparr>kv = demo_store, faults = [], delays = [], clock = 5000,
         trace = [SETEX ''refresh:S1'' 604800 ''tokR'', SETEX ''token:S1'' 604800 ''j5'']\<rparr>) \<and>
   (\<exists>pa pr. fst (verifyToken demo_env ''tokA'' (demo_world 6000 demo_store [])) = Inr (Some pa) \<and>
            fst (verifyToken demo_env ''tokR'' (demo_world 6000 demo_store [])) = Inr (Some pr) \<and>
            sessionId pa = ''S1'' \<and> sessionId pr = ''S1'' \<and>
            tokenType pa = Access \<and> tokenType pr = Refresh \<and>
            userId pa = ''u1'' \<and> userId pr = ''u1'' \<and>
            email pa = ''a@x.com'' \<and> email pr = ''a@x.com'')"
proof -
  let ?pair = "\<lparr>accessToken = ''tokA'', refreshToken = ''tokR'',
             accessTokenExpiresAt = 905000, refreshTokenExpiresAt = 604805000\<rparr>"
  let ?w' = "\<lparr>kv = demo_store, faults = [], delays = [], clock = 5000,
         trace = [SETEX ''refresh:S1'' 604800 ''tokR'', SETEX ''token:S1'' 604800 ''j5'']\<rparr>"
  have c: "jwt_roundtrip demo_env"
    by (auto simp: jwt_roundtrip_def demo_defs)
  have g: "generateTokenPair demo_env ''u1'' ''a@x.com'' ''S1'' (demo_world 5000 [] [])
     = (Inr ?pair, ?w')"
    by (simp add: run_defs)
  have h: "\<not> faulty (demo_world 6000 demo_store [])"
    "\<not> blacklisted (demo_world 6000 demo_store []) ''tokA''"
    "\<not> blacklisted (demo_world 6000 demo_store []) ''tokR''"
    "unix_time (instant 1 (demo_world 6000 demo_store []))
       < unix_time (clock (demo_world 5000 [] [])) + 15 * 60"
    "unix_time (instant 1 (demo_world 6000 demo_store []))
       < unix_time (clock (demo_world 5000 [] [])) + 7 * 24 * 60 * 60"
    by (simp_all add: demo_defs blacklisted_def demo_store_def)
  from generateTokenPair_roundtrip [OF c g] h
  have "\<exists>pa. fst (verifyToken demo_env ''tokA'' (demo_world 6000 demo_store [])) = Inr (Some pa) \<and>
                  userId pa = ''u1'' \<and> email pa = ''a@x.com'' \<and> sessionId pa = ''S1'' \<and>
                  tokenType pa = Access"
    and "\<exists>pr. fst (verifyToken demo_env ''tokR'' (demo_world 6000 demo_store [])) = Inr (Some pr) \<and>
                  userId pr = ''u1'' \<and> email pr = ''a@x.com'' \<and> sessionId pr = ''S1'' \<and>
                  tokenType pr = Refresh"
    by auto
  with c g show ?thesis by auto
qed

section \<open>The scans over the session rows\<close>



lemma session_key_not_refresh:
  "take (length REDIS_TOKEN_PREFIX) k = REDIS_TOKEN_PREFIX \<Longrightarrow> k \<noteq> REDIS_REFRESH_PREFIX @ s"
  by (auto simp: REDIS_TOKEN_PREFIX_def REDIS_REFRESH_PREFIX_def)

























end
